theory Spec2Isabelle
  imports Main "HOL-Library.Word"
begin

section \<open>JavaScript strings and values\<close>

text \<open>
  A JavaScript string is a sequence of UTF-16 code units; \<open>length\<close>, \<open>split\<close>,
  \<open>replace\<close> and the regular expressions of the scripts all work on code units.
  \<open>lit\<close> turns an ASCII literal of the source into such a sequence.
\<close>

type_synonym jschar = "16 word"
type_synonym jsstring = "jschar list"

definition lit :: "string \<Rightarrow> jsstring" where
  "lit s = map (\<lambda>c. of_nat (of_char c)) s"

text \<open>
  The values the scripts test with \<open>typeof\<close> and for truthiness: a string, or some
  other value that is falsy (\<open>undefined\<close>, \<open>null\<close>, \<open>0\<close>, \<open>false\<close>) or truthy
  (an object, a non-zero number, \<open>true\<close>).
\<close>

datatype jsvalue = JString jsstring | JFalsy | JTruthy

fun truthy :: "jsvalue \<Rightarrow> bool" where
  "truthy (JString s) = (s \<noteq> [])"
| "truthy JFalsy = False"
| "truthy JTruthy = True"

datatype js_error = TypeError | SyntaxError | URIError | Error jsstring

text \<open>
  White space and line terminators of ECMAScript: what \<open>String.prototype.trim\<close> strips
  and what \<open>\s\<close> matches.
\<close>

definition isSpace :: "jschar \<Rightarrow> bool" where
  "isSpace c \<longleftrightarrow>
     c = 0x0009 \<or> c = 0x000A \<or> c = 0x000B \<or> c = 0x000C \<or> c = 0x000D \<or> c = 0x0020 \<or>
     c = 0x00A0 \<or> c = 0x1680 \<or> (0x2000 \<le> c \<and> c \<le> 0x200A) \<or> c = 0x2028 \<or>
     c = 0x2029 \<or> c = 0x202F \<or> c = 0x205F \<or> c = 0x3000 \<or> c = 0xFEFF"

definition trim :: "jsstring \<Rightarrow> jsstring" where
  "trim s = rev (dropWhile isSpace (rev (dropWhile isSpace s)))"

definition isDigit :: "jschar \<Rightarrow> bool" where
  "isDigit c \<longleftrightarrow> 0x30 \<le> c \<and> c \<le> 0x39"

definition isWordChar :: "jschar \<Rightarrow> bool" where
  "isWordChar c \<longleftrightarrow>
     (0x41 \<le> c \<and> c \<le> 0x5A) \<or> (0x61 \<le> c \<and> c \<le> 0x7A) \<or> isDigit c \<or> c = 0x5F"

text \<open>\<open>s.split(sep)\<close> for a one-character separator, and \<open>parts.join(sep)\<close>.\<close>

fun split :: "jschar \<Rightarrow> jsstring \<Rightarrow> jsstring list" where
  "split sep [] = [] # []"
| "split sep (c # cs) =
     (if c = sep then [] # split sep cs
      else (case split sep cs of [] \<Rightarrow> [c] # [] | p # ps \<Rightarrow> (c # p) # ps))"

fun join :: "jsstring \<Rightarrow> jsstring list \<Rightarrow> jsstring" where
  "join sep [] = []"
| "join sep [p] = p"
| "join sep (p # q # ps) = p @ sep @ join sep (q # ps)"

definition endsWith :: "jsstring \<Rightarrow> jsstring \<Rightarrow> bool" where
  "endsWith s suffix \<longleftrightarrow>
     length suffix \<le> length s \<and> drop (length s - length suffix) s = suffix"

text \<open>\<open>s.includes(t)\<close>: \<open>t\<close> occurs in \<open>s\<close> as a contiguous run.\<close>

fun includesStr :: "jsstring \<Rightarrow> jsstring \<Rightarrow> bool" where
  "includesStr [] t = (t = [])"
| "includesStr (c # cs) t = (take (length t) (c # cs) = t \<or> includesStr cs t)"

section \<open>The content script: descriptor and URL-parameter extraction\<close>

text \<open>\<open>this.extensionData\<close> of \<open>VSIXDownloader\<close> (content.js); the field
  \<open>identifier\<close> is written \<open>identifier'\<close>.\<close>

record extension_data =
  version :: jsstring
  publisher :: jsstring
  identifier' :: jsstring
  name :: jsstring

definition emptyData :: extension_data where
  "emptyData = \<lparr>version = [], publisher = [], identifier' = [], name = []\<rparr>"

text \<open>
  \<open>sanitizeText\<close>: a non-string gives the empty string; otherwise every
  \<open>< > " ' &\<close> is removed and the result trimmed.
\<close>

definition strippedChar :: "jschar \<Rightarrow> bool" where
  "strippedChar c \<longleftrightarrow> c = 0x3C \<or> c = 0x3E \<or> c = 0x22 \<or> c = 0x27 \<or> c = 0x26"

fun sanitizeText :: "jsvalue \<Rightarrow> jsstring" where
  "sanitizeText (JString text) = trim (filter (\<lambda>c. \<not> strippedChar c) text)"
| "sanitizeText _ = []"

text \<open>
  What one extraction pass reads from the page. Each read that the script wraps in
  \<open>try\<close> may throw, so it is a sum with the exception on the left.
  \<^item> \<open>itemNameParam\<close>: \<open>new URLSearchParams(window.location.search).get('itemName')\<close>,
    \<open>None\<close> for \<open>null\<close>;
  \<^item> \<open>structuredScripts\<close>: the JSON script blocks; for each block the outcome of
    \<open>JSON.parse\<close> followed by the probe
    \<open>data.softwareVersion || data.version || data.Version || (data.offers && data.offers.version)\<close>;
  \<^item> \<open>selectorTexts\<close>: for a selector, the \<open>textContent\<close> of the elements
    \<open>querySelectorAll\<close> returns, in document order;
  \<^item> \<open>allCells\<close>: the \<open>textContent\<close> of the \<open>td, dd, span\<close> elements (this query is
    outside any \<open>try\<close>; the selector is a well-formed constant, for which
    \<open>querySelectorAll\<close> returns);
  \<^item> \<open>initialState\<close>: \<open>None\<close> when \<open>window.__INITIAL_STATE__\<close> is falsy, otherwise the
    probe \<open>state.extension?.version || state.item?.version || state.data?.version\<close>;
  \<^item> \<open>settingsRead\<close>: the \<open>autoInject\<close> value of
    \<open>chrome.storage.sync.get({ autoInject: true })\<close>, or its rejection;
  \<^item> \<open>injectionTarget\<close>: whether \<open>findInjectionTarget\<close> finds an element.
\<close>

record page =
  itemNameParam :: "js_error + jsstring option"
  structuredScripts :: "js_error + (js_error + jsvalue) list"
  selectorTexts :: "jsstring \<Rightarrow> js_error + jsstring list"
  allCells :: "jsstring list"
  initialState :: "js_error + jsvalue option"
  settingsRead :: "js_error + bool"
  injectionTarget :: bool

definition dot :: jschar where
  "dot = 0x2E"

text \<open>
  \<open>try { body } catch (error) { handler }\<close>: the body's exception, if any, goes to the
  handler.
\<close>

definition tryCatch :: "js_error + 'a \<Rightarrow> (js_error \<Rightarrow> js_error + 'a) \<Rightarrow> js_error + 'a" where
  "tryCatch body handler = (case body of Inl e \<Rightarrow> handler e | Inr v \<Rightarrow> Inr v)"

text \<open>
  \<open>extractFromURL\<close>. The whole body is inside \<open>try\<close>; the only call that can throw
  comes before the first assignment, so the handler (which only logs) leaves the
  descriptor as it was.
\<close>

definition extractFromURL :: "page \<Rightarrow> extension_data \<Rightarrow> js_error + extension_data" where
  "extractFromURL pg d =
     tryCatch
       (case itemNameParam pg of
          Inl e \<Rightarrow> Inl e
        | Inr None \<Rightarrow> Inr d
        | Inr (Some itemName) \<Rightarrow>
            if itemName = [] then Inr d
            else
              let d1 = d\<lparr>identifier' := sanitizeText (JString itemName)\<rparr>;
                  parts = split dot itemName
              in if length parts \<ge> 2
                 then Inr (d1\<lparr>publisher := sanitizeText (JString (parts ! 0)),
                              name := sanitizeText (JString (join [dot] (drop 1 parts)))\<rparr>)
                 else Inr d1)
       (\<lambda>e. Inr d)"

text \<open>A page whose only content is the \<open>itemName\<close> parameter.\<close>

definition paramPage :: "jsstring \<Rightarrow> page" where
  "paramPage itemName =
     \<lparr>itemNameParam = Inr (Some itemName), structuredScripts = Inr [],
      selectorTexts = (\<lambda>sel. Inr []), allCells = [], initialState = Inr None,
      settingsRead = Inr True, injectionTarget = True\<rparr>"

subsection \<open>Version patterns\<close>

text \<open>
  \<open>\d+\<close> followed by something that is not a digit can only succeed on the whole run
  of digits, so the greedy match with backtracking is: take the run, fail if it is empty.
\<close>

definition digits1 :: "jsstring \<Rightarrow> jsstring option" where
  "digits1 s = (if takeWhile isDigit s = [] then None else Some (dropWhile isDigit s))"

definition literalDot :: "jsstring \<Rightarrow> jsstring option" where
  "literalDot s = (case s of [] \<Rightarrow> None | c # cs \<Rightarrow> if c = dot then Some cs else None)"

text \<open>\<open>isValidVersion\<close>: a string on which \<open>/^\d+\.\d+\.\d+/\<close> matches.\<close>

fun isValidVersion :: "jsvalue \<Rightarrow> bool" where
  "isValidVersion (JString v) =
     (Option.bind (Option.bind (Option.bind (Option.bind (digits1 v) literalDot) digits1)
        literalDot) digits1 \<noteq> None)"
| "isValidVersion _ = False"

text \<open>\<open>hasValidData\<close>: \<open>!!(identifier && version && publisher)\<close>.\<close>

definition hasValidData :: "extension_data \<Rightarrow> bool" where
  "hasValidData d \<longleftrightarrow>
     truthy (JString (identifier' d)) \<and> truthy (JString (version d)) \<and>
     truthy (JString (publisher d))"

subsection \<open>Version extraction strategies\<close>

text \<open>
  Strategy 1, \<open>extractVersionFromStructuredData\<close>. Each script is parsed and probed
  inside its own \<open>try\<close> (an exception skips the script); the query for the scripts is
  inside the outer \<open>try\<close>. \<open>Some v\<close> stands for "\<open>version\<close> set to \<open>v\<close>, \<open>true\<close>
  returned", \<open>None\<close> for \<open>false\<close>.
\<close>

fun scanScripts :: "(js_error + jsvalue) list \<Rightarrow> jsstring option" where
  "scanScripts [] = None"
| "scanScripts (Inl e # rest) = scanScripts rest"
| "scanScripts (Inr (JString v) # rest) =
     (if truthy (JString v) \<and> isValidVersion (JString v) then Some v else scanScripts rest)"
| "scanScripts (Inr other # rest) = scanScripts rest"

definition extractVersionFromStructuredData :: "page \<Rightarrow> js_error + jsstring option" where
  "extractVersionFromStructuredData pg =
     tryCatch
       (case structuredScripts pg of
          Inl e \<Rightarrow> Inl e
        | Inr scripts \<Rightarrow> Inr (scanScripts scripts))
       (\<lambda>e. Inr None)"

text \<open>
  \<open>text.match(/\b(\d+\.\d+\.\d+(?:\.\d+)?)\b/)\<close>. A match starts at a digit that no
  word character precedes. The three runs of digits are whole runs; the optional fourth
  group is taken when a dot, digits and then a word boundary follow, and is skipped
  otherwise, in which case the boundary is tested right after the third run.
\<close>

definition endBoundary :: "jsstring \<Rightarrow> bool" where
  "endBoundary r \<longleftrightarrow> (case r of [] \<Rightarrow> True | c # cs \<Rightarrow> \<not> isWordChar c)"

definition matchVersionAt :: "jsstring \<Rightarrow> jsstring option" where
  "matchVersionAt s =
     (case Option.bind (Option.bind (Option.bind (Option.bind (digits1 s) literalDot) digits1)
             literalDot) digits1 of
        None \<Rightarrow> None
      | Some r3 \<Rightarrow>
          (case Option.bind (literalDot r3) digits1 of
             Some r4 \<Rightarrow>
               if endBoundary r4 then Some (take (length s - length r4) s)
               else if endBoundary r3 then Some (take (length s - length r3) s)
               else None
           | None \<Rightarrow>
               if endBoundary r3 then Some (take (length s - length r3) s) else None))"

fun matchVersionFrom :: "bool \<Rightarrow> jsstring \<Rightarrow> jsstring option" where
  "matchVersionFrom afterWord [] = None"
| "matchVersionFrom afterWord (c # cs) =
     (if \<not> afterWord \<and> isDigit c
      then (case matchVersionAt (c # cs) of
              Some m \<Rightarrow> Some m
            | None \<Rightarrow> matchVersionFrom (isWordChar c) cs)
      else matchVersionFrom (isWordChar c) cs)"

definition matchVersion :: "jsstring \<Rightarrow> jsstring option" where
  "matchVersion text = matchVersionFrom False text"

text \<open>
  \<open>/version/i.test(text)\<close>: without the \<open>u\<close> flag a non-ASCII character never
  canonicalizes to an ASCII one, so the test is the ASCII case-insensitive search.
\<close>

definition toLowerAscii :: "jschar \<Rightarrow> jschar" where
  "toLowerAscii c = (if 0x41 \<le> c \<and> c \<le> 0x5A then c + 0x20 else c)"

definition mentionsVersion :: "jsstring \<Rightarrow> bool" where
  "mentionsVersion text = includesStr (map toLowerAscii text) (lit ''version'')"

text \<open>Strategy 2, \<open>extractVersionFromDOM\<close>: the priority selectors, then every cell.\<close>

definition versionSelectors :: "jsstring list" where
  "versionSelectors =
     [lit ''[class*=\"version-text\"]'', lit ''[class*=\"version-number\"]'',
      lit ''[class*=\"extension-version\"]'', lit ''.version'',
      lit ''.ux-table-metadata td'', lit ''.metadata-table td'', lit ''table.metadata td'',
      lit ''[class*=\"metadata\"] [class*=\"version\"]'',
      lit ''[class*=\"details\"] [class*=\"version\"]'']"

fun firstVersionIn :: "jsstring list \<Rightarrow> jsstring option" where
  "firstVersionIn [] = None"
| "firstVersionIn (t # ts) =
     (case matchVersion (trim t) of Some m \<Rightarrow> Some m | None \<Rightarrow> firstVersionIn ts)"

fun scanSelectors :: "page \<Rightarrow> jsstring list \<Rightarrow> jsstring option" where
  "scanSelectors pg [] = None"
| "scanSelectors pg (sel # sels) =
     (case tryCatch
             (case selectorTexts pg sel of
                Inl e \<Rightarrow> Inl e
              | Inr texts \<Rightarrow> Inr (firstVersionIn texts))
             (\<lambda>e. Inr None) of
        Inr (Some m) \<Rightarrow> Some m
      | _ \<Rightarrow> scanSelectors pg sels)"

fun scanCells :: "jsstring list \<Rightarrow> jsstring option" where
  "scanCells [] = None"
| "scanCells (t # ts) =
     (if mentionsVersion (trim t)
      then (case matchVersion (trim t) of Some m \<Rightarrow> Some m | None \<Rightarrow> scanCells ts)
      else scanCells ts)"

definition extractVersionFromDOM :: "page \<Rightarrow> js_error + jsstring option" where
  "extractVersionFromDOM pg =
     (case scanSelectors pg versionSelectors of
        Some m \<Rightarrow> Inr (Some m)
      | None \<Rightarrow> Inr (scanCells (allCells pg)))"

text \<open>Strategy 3, \<open>extractVersionFromPageData\<close>, the whole body inside \<open>try\<close>.\<close>

definition extractVersionFromPageData :: "page \<Rightarrow> js_error + jsstring option" where
  "extractVersionFromPageData pg =
     tryCatch
       (case initialState pg of
          Inl e \<Rightarrow> Inl e
        | Inr None \<Rightarrow> Inr None
        | Inr (Some (JString v)) \<Rightarrow>
            Inr (if truthy (JString v) \<and> isValidVersion (JString v) then Some v else None)
        | Inr (Some other) \<Rightarrow> Inr None)
       (\<lambda>e. Inr None)"

text \<open>\<open>extractVersion\<close>: the three strategies in order, stopping at the first success.\<close>

definition extractVersion :: "page \<Rightarrow> extension_data \<Rightarrow> js_error + extension_data" where
  "extractVersion pg d =
     (case extractVersionFromStructuredData pg of
        Inl e \<Rightarrow> Inl e
      | Inr (Some v) \<Rightarrow> Inr (d\<lparr>version := v\<rparr>)
      | Inr None \<Rightarrow>
          (case extractVersionFromDOM pg of
             Inl e \<Rightarrow> Inl e
           | Inr (Some v) \<Rightarrow> Inr (d\<lparr>version := v\<rparr>)
           | Inr None \<Rightarrow>
               (case extractVersionFromPageData pg of
                  Inl e \<Rightarrow> Inl e
                | Inr (Some v) \<Rightarrow> Inr (d\<lparr>version := v\<rparr>)
                | Inr None \<Rightarrow> Inr d)))"

text \<open>
  \<open>extractMetadata\<close>: URL first, then the version; an exception of either step would
  leave the function. The closing \<open>hasValidData\<close> test only logs a warning.
\<close>

definition extractMetadata :: "page \<Rightarrow> extension_data \<Rightarrow> js_error + extension_data" where
  "extractMetadata pg d =
     (case extractFromURL pg d of
        Inl e \<Rightarrow> Inl e
      | Inr d1 \<Rightarrow> extractVersion pg d1)"

section \<open>The content script: processing, retry and injection\<close>


datatype debounce_key = DomReady | WindowLoadKey | NavigationKey | MutationKey

record downloader =
  extensionData :: extension_data
  observer :: bool
  isProcessing :: bool
  isInjected :: bool
  retryAttempts :: nat
  maxRetries :: nat
  retryDelay :: nat
  containerPresent :: bool
  timers :: "nat list"
  domReadyListener :: bool
  loadListener :: bool
  watching :: bool
  debounceTimers :: "debounce_key set"
  extractCalls :: nat
  scheduled :: "nat list"

text \<open>The state the constructor has set up when it calls \<open>init\<close>.\<close>

definition newDownloader :: downloader where
  "newDownloader =
     \<lparr>extensionData = emptyData, observer = False, isProcessing = False, isInjected = False,
      retryAttempts = 0, maxRetries = 5, retryDelay = 1000, containerPresent = False,
      timers = [], domReadyListener = False, loadListener = False, watching = False,
      debounceTimers = {}, extractCalls = 0, scheduled = []\<rparr>"

definition injectDownloadButtons :: "page \<Rightarrow> downloader \<Rightarrow> downloader" where
  "injectDownloadButtons pg s =
     (if isInjected s \<or> containerPresent s then s
      else if \<not> hasValidData (extensionData s) then s
      else if \<not> injectionTarget pg then s
      else s\<lparr>containerPresent := True, isInjected := True\<rparr>)"

text \<open>
  \<open>checkAutoInject\<close>: the settings read and the injection it gates are inside \<open>try\<close>;
  the handler logs and injects.
\<close>

definition checkAutoInject :: "page \<Rightarrow> downloader \<Rightarrow> js_error + downloader" where
  "checkAutoInject pg s =
     (if isInjected s then Inr s
      else tryCatch
             (case settingsRead pg of
                Inl e \<Rightarrow> Inl e
              | Inr autoInject \<Rightarrow>
                  if autoInject then Inr (injectDownloadButtons pg s) else Inr s)
             (\<lambda>e. Inr (injectDownloadButtons pg s)))"




















text \<open>Pages used as concrete inputs.\<close>

definition versionCellPage :: "jsstring \<Rightarrow> jsstring \<Rightarrow> page" where
  "versionCellPage itemName cell = (paramPage itemName)\<lparr>allCells := [cell]\<rparr>"

definition throwingPage :: page where
  "throwingPage =
     \<lparr>itemNameParam = Inl TypeError, structuredScripts = Inl TypeError,
      selectorTexts = (\<lambda>sel. Inl SyntaxError), allCells = [], initialState = Inl TypeError,
      settingsRead = Inl (Error (lit ''storage unavailable'')), injectionTarget = True\<rparr>"


definition pythonData :: extension_data where
  "pythonData =
     \<lparr>version = lit ''2024.0.0'', publisher = lit ''ms-python'',
      identifier' = lit ''ms-python.python'', name = lit ''python''\<rparr>"

section \<open>Download URLs and file names\<close>

text \<open>
  \<open>encodeURIComponent\<close> (ECMA-262, Encode with the unreserved set of
  \<open>encodeURIComponent\<close>): letters, digits and \<open>- _ . ! ~ * ' ( )\<close> are kept; any other
  code point is written as the \<open>%XX\<close> escapes of its UTF-8 octets; a surrogate that is
  not part of a pair throws \<open>URIError\<close>.
\<close>

definition uriUnreserved :: "jschar \<Rightarrow> bool" where
  "uriUnreserved c \<longleftrightarrow>
     (0x41 \<le> c \<and> c \<le> 0x5A) \<or> (0x61 \<le> c \<and> c \<le> 0x7A) \<or> (0x30 \<le> c \<and> c \<le> 0x39) \<or>
     c = 0x2D \<or> c = 0x5F \<or> c = 0x2E \<or> c = 0x21 \<or> c = 0x7E \<or> c = 0x2A \<or> c = 0x27 \<or>
     c = 0x28 \<or> c = 0x29"

definition isLeadSurrogate :: "jschar \<Rightarrow> bool" where
  "isLeadSurrogate c \<longleftrightarrow> 0xD800 \<le> c \<and> c \<le> 0xDBFF"

definition isTrailSurrogate :: "jschar \<Rightarrow> bool" where
  "isTrailSurrogate c \<longleftrightarrow> 0xDC00 \<le> c \<and> c \<le> 0xDFFF"

definition utf8 :: "nat \<Rightarrow> nat list" where
  "utf8 cp =
     (if cp < 0x80 then [cp]
      else if cp < 0x800 then [0xC0 + cp div 64, 0x80 + cp mod 64]
      else if cp < 0x10000
      then [0xE0 + cp div 4096, 0x80 + (cp div 64) mod 64, 0x80 + cp mod 64]
      else [0xF0 + cp div 262144, 0x80 + (cp div 4096) mod 64, 0x80 + (cp div 64) mod 64,
            0x80 + cp mod 64])"

definition hexDigit :: "nat \<Rightarrow> jschar" where
  "hexDigit n = (if n < 10 then of_nat (0x30 + n) else of_nat (0x41 + (n - 10)))"

definition percentEscape :: "nat \<Rightarrow> jsstring" where
  "percentEscape octet = [0x25, hexDigit (octet div 16), hexDigit (octet mod 16)]"

definition escapeCodePoint :: "nat \<Rightarrow> jsstring" where
  "escapeCodePoint cp = concat (map percentEscape (utf8 cp))"

fun encodeURIComponent :: "jsstring \<Rightarrow> js_error + jsstring" where
  "encodeURIComponent [] = Inr []"
| "encodeURIComponent [c] =
     (if uriUnreserved c then Inr [c]
      else if isLeadSurrogate c \<or> isTrailSurrogate c then Inl URIError
      else Inr (escapeCodePoint (unat c)))"
| "encodeURIComponent (c # d # cs) =
     (if uriUnreserved c then map_sum id ((#) c) (encodeURIComponent (d # cs))
      else if isTrailSurrogate c then Inl URIError
      else if isLeadSurrogate c
      then (if isTrailSurrogate d
            then map_sum id
                   ((@) (escapeCodePoint
                           ((unat c - 0xD800) * 0x400 + (unat d - 0xDC00) + 0x10000)))
                   (encodeURIComponent cs)
            else Inl URIError)
      else map_sum id ((@) (escapeCodePoint (unat c))) (encodeURIComponent (d # cs)))"

text \<open>
  \<open>downloadFile\<close> of the content script: the \<open>url\<close> and \<open>filename\<close> of the
  \<open>download\<close> message it sends. The template literal evaluates its
  \<open>encodeURIComponent\<close> calls from left to right; the first exception leaves the
  function. The parameters \<open>publisher\<close> and \<open>version\<close> are written \<open>pub\<close> and \<open>ver\<close>.
\<close>

record download_message =
  url :: jsstring
  filename :: jsstring

definition downloadFile ::
    "jsstring \<Rightarrow> jsstring \<Rightarrow> jsstring \<Rightarrow> jsstring \<Rightarrow> js_error + download_message" where
  "downloadFile pub extension ver type =
     (case encodeURIComponent pub of
        Inl e \<Rightarrow> Inl e
      | Inr p \<Rightarrow>
     (case encodeURIComponent extension of
        Inl e \<Rightarrow> Inl e
      | Inr x \<Rightarrow>
     (case encodeURIComponent ver of
        Inl e \<Rightarrow> Inl e
      | Inr v \<Rightarrow>
          if type = lit ''vsix''
          then Inr \<lparr>url = lit ''https://'' @ p @
                       lit ''.gallery.vsassets.io/_apis/public/gallery/publisher/'' @ p @
                       lit ''/extension/'' @ x @ lit ''/'' @ v @
                       lit ''/assetbyname/Microsoft.VisualStudio.Services.VSIXPackage'',
                    filename = pub @ lit ''.'' @ extension @ lit ''-'' @ ver @
                       lit ''.vsix''\<rparr>
          else Inr \<lparr>url = lit ''https://marketplace.visualstudio.com/_apis/public/gallery/publishers/'' @
                       p @ lit ''/vsextensions/'' @ x @ lit ''/'' @ v @ lit ''/vspackage'',
                    filename = pub @ lit ''.'' @ extension @ lit ''-'' @ ver @
                       lit ''.vsixpackage''\<rparr>)))"

text \<open>
  \<open>handleDownload\<close> of the popup (\<open>PopupManager\<close>): the \<open>url\<close> and \<open>filename\<close> it
  passes to \<open>chrome.downloads.download\<close>; \<open>None\<close> when it stops at the missing-data test,
  an exception when the identifier has no dot or a segment cannot be encoded.
  \<open>popupData\<close> is the popup's \<open>this.extensionData\<close>, \<open>None\<close> for \<open>null\<close>.
\<close>

definition handleDownload :: "extension_data option \<Rightarrow> jsstring \<Rightarrow> js_error + download_message option" where
  "handleDownload popupData type =
     (case popupData of
        None \<Rightarrow> Inr None
      | Some d \<Rightarrow>
          if \<not> truthy (JString (identifier' d)) \<or> \<not> truthy (JString (version d)) then Inr None
          else
            let parts = split dot (identifier' d)
            in if length parts < 2
               then Inl (Error (lit ''Invalid extension identifier format''))
               else
                 (case encodeURIComponent (parts ! 0) of
                    Inl e \<Rightarrow> Inl e
                  | Inr p \<Rightarrow>
                 (case encodeURIComponent (join [dot] (drop 1 parts)) of
                    Inl e \<Rightarrow> Inl e
                  | Inr x \<Rightarrow>
                 (case encodeURIComponent (version d) of
                    Inl e \<Rightarrow> Inl e
                  | Inr v \<Rightarrow>
                      if type = lit ''vsix''
                      then Inr (Some
                        \<lparr>url = lit ''https://'' @ p @
                           lit ''.gallery.vsassets.io/_apis/public/gallery/publisher/'' @ p @
                           lit ''/extension/'' @ x @ lit ''/'' @ v @
                           lit ''/assetbyname/Microsoft.VisualStudio.Services.VSIXPackage'',
                         filename = identifier' d @ lit ''-'' @ version d @ lit ''.vsix''\<rparr>)
                      else Inr (Some
                        \<lparr>url = lit ''https://marketplace.visualstudio.com/_apis/public/gallery/publishers/'' @
                           p @ lit ''/vsextensions/'' @ x @ lit ''/'' @ v @ lit ''/vspackage'',
                         filename = identifier' d @ lit ''-'' @ version d @
                           lit ''.vsixpackage''\<rparr>)))))"

text \<open>
  \<open>getFileName\<close> of the standalone scripts (\<open>extensionData.getFileName\<close> of the legacy
  script, \<open>ExtensionManager.getFileName\<close> of the enhanced one):
  \<open>`${identifier}_${version}.${type}`\<close>.
\<close>

definition getFileName :: "jsstring \<Rightarrow> jsstring \<Rightarrow> jsstring \<Rightarrow> jsstring" where
  "getFileName ident ver type = ident @ lit ''_'' @ ver @ lit ''.'' @ type"

section \<open>The popup: message retry\<close>







section \<open>The background worker: validation and file names\<close>

text \<open>
  \<open>sanitizeFilename\<close>. The four \<open>replace\<close> calls in order, \<open>trim\<close>, the extension
  test, the length limit. \<open>lastIndexOf\<close> gives \<open>-1\<close> when there is no dot, and
  \<open>substring\<close> clamps a negative index to 0. The parameter \<open>filename\<close> is written
  \<open>fname\<close>.
\<close>

definition underscore :: jschar where
  "underscore = 0x5F"

definition forbiddenChar :: "jschar \<Rightarrow> bool" where
  "forbiddenChar c \<longleftrightarrow>
     c = 0x3C \<or> c = 0x3E \<or> c = 0x3A \<or> c = 0x22 \<or> c = 0x7C \<or> c = 0x3F \<or> c = 0x2A"

fun replaceDotDot :: "jsstring \<Rightarrow> jsstring" where
  "replaceDotDot (a # b # cs) =
     (if a = dot \<and> b = dot then underscore # replaceDotDot cs
      else a # replaceDotDot (b # cs))"
| "replaceDotDot cs = cs"

definition replaceLeadingDot :: "jsstring \<Rightarrow> jsstring" where
  "replaceLeadingDot s = (case s of [] \<Rightarrow> [] | c # cs \<Rightarrow> if c = dot then underscore # cs else s)"

function collapseSpaces :: "jsstring \<Rightarrow> jsstring" where
  "collapseSpaces [] = []"
| "collapseSpaces (c # cs) =
     (if isSpace c then underscore # collapseSpaces (dropWhile isSpace cs)
      else c # collapseSpaces cs)"
  by pat_completeness auto
termination
  by (relation "measure length") (auto simp: length_dropWhile_le less_Suc_eq_le)

definition lastIndexOf :: "jsstring \<Rightarrow> jschar \<Rightarrow> int" where
  "lastIndexOf s c =
     (if c \<in> set s then int (length s) - 1 - int (length (takeWhile (\<lambda>x. x \<noteq> c) (rev s)))
      else - 1)"

definition substringFrom :: "jsstring \<Rightarrow> int \<Rightarrow> jsstring" where
  "substringFrom s i = drop (nat i) s"

definition substringTo :: "jsstring \<Rightarrow> int \<Rightarrow> jsstring" where
  "substringTo s n = take (nat n) s"

fun sanitizeFilename :: "jsvalue \<Rightarrow> jsstring" where
  "sanitizeFilename (JString fname) =
     (let sanitized =
            trim (collapseSpaces (replaceLeadingDot (replaceDotDot
              (map (\<lambda>c. if forbiddenChar c then underscore else c) fname))));
          sanitized =
            (if \<not> endsWith sanitized (lit ''.vsix'') \<and> \<not> endsWith sanitized (lit ''.vsixpackage'')
             then sanitized @ lit ''.vsix'' else sanitized)
      in if length sanitized > 200
         then let ext = substringFrom sanitized (lastIndexOf sanitized dot)
              in substringTo sanitized (200 - int (length ext)) @ ext
         else sanitized)"
| "sanitizeFilename _ = lit ''download.vsix''"

text \<open>
  \<open>validateDownloadRequest\<close>. \<open>new URL(request.url)\<close> is the platform's parser, a
  parameter here: \<open>None\<close> when it throws, otherwise the \<open>protocol\<close> and \<open>hostname\<close> of
  the parsed URL.
\<close>

record download_request =
  requestUrl :: jsvalue
  requestFilename :: jsvalue

record url_obj =
  protocol :: jsstring
  hostname :: jsstring

datatype validation = Valid | Invalid jsstring

definition allowedDomains :: "jsstring list" where
  "allowedDomains = [lit ''marketplace.visualstudio.com'', lit ''gallery.vsassets.io'']"

definition isAllowedDomain :: "jsstring \<Rightarrow> bool" where
  "isAllowedDomain host \<longleftrightarrow>
     list_ex (\<lambda>domain. host = domain \<or> endsWith host (lit ''.'' @ domain)) allowedDomains"

definition isString :: "jsvalue \<Rightarrow> bool" where
  "isString v \<longleftrightarrow> (case v of JString s \<Rightarrow> True | _ \<Rightarrow> False)"

definition validateDownloadRequest ::
    "(jsstring \<Rightarrow> url_obj option) \<Rightarrow> download_request \<Rightarrow> validation" where
  "validateDownloadRequest parseUrl request =
     (if \<not> truthy (requestUrl request) \<or> \<not> isString (requestUrl request)
      then Invalid (lit ''Invalid or missing URL'')
      else if \<not> truthy (requestFilename request) \<or> \<not> isString (requestFilename request)
      then Invalid (lit ''Invalid or missing filename'')
      else
        (case requestUrl request of
           JString u \<Rightarrow>
             (case parseUrl u of
                None \<Rightarrow> Invalid (lit ''Malformed URL'')
              | Some urlObj \<Rightarrow>
                  if \<not> isAllowedDomain (hostname urlObj)
                  then Invalid (lit ''Domain not allowed: '' @ hostname urlObj)
                  else if protocol urlObj \<noteq> lit ''https:''
                  then Invalid (lit ''Only HTTPS URLs are allowed'')
                  else Valid)
         | _ \<Rightarrow> Invalid (lit ''Invalid or missing URL'')))"

text \<open>
  \<open>handleDownloadRequest\<close> with \<open>initiateDownload\<close>. The download capability
  \<open>chrome.downloads.download\<close> is a parameter that gives a download id or rejects with a
  message. The outcome is the response sent back, the calls made to the capability
  (URL and file name), and the id entered into \<open>state.downloads\<close>.
\<close>

datatype response = Success nat | Failure jsstring

record handled =
  sent :: response
  capabilityCalls :: "(jsstring \<times> jsstring) list"
  tracked :: "nat option"

definition handleDownloadRequest ::
    "(jsstring \<Rightarrow> url_obj option) \<Rightarrow> (jsstring \<Rightarrow> jsstring \<Rightarrow> jsstring + nat) \<Rightarrow>
     download_request \<Rightarrow> handled" where
  "handleDownloadRequest parseUrl download request =
     (case validateDownloadRequest parseUrl request of
        Invalid err \<Rightarrow> \<lparr>sent = Failure err, capabilityCalls = [], tracked = None\<rparr>
      | Valid \<Rightarrow>
          (case requestUrl request of
             JString u \<Rightarrow>
               let sanitizedFilename = sanitizeFilename (requestFilename request)
               in (case download u sanitizedFilename of
                     Inr downloadId \<Rightarrow>
                       \<lparr>sent = Success downloadId, capabilityCalls = [(u, sanitizedFilename)],
                        tracked = Some downloadId\<rparr>
                   | Inl message \<Rightarrow>
                       \<lparr>sent = Failure (lit ''Download failed: '' @ message),
                        capabilityCalls = [(u, sanitizedFilename)], tracked = None\<rparr>)
           | _ \<Rightarrow> \<lparr>sent = Failure (lit ''Download failed''), capabilityCalls = [],
                   tracked = None\<rparr>))"

text \<open>Parsers and a capability used as concrete inputs.\<close>

definition parsesTo :: "jsstring \<Rightarrow> jsstring \<Rightarrow> jsstring \<Rightarrow> url_obj option" where
  "parsesTo scheme host u = Some \<lparr>protocol = scheme, hostname = host\<rparr>"

definition neverParses :: "jsstring \<Rightarrow> url_obj option" where
  "neverParses u = None"

definition downloadOk :: "jsstring \<Rightarrow> jsstring \<Rightarrow> jsstring + nat" where
  "downloadOk u f = Inr 1"


text \<open>The two download URLs of \<open>ms-python.python\<close> version \<open>2024.0.0\<close>.\<close>

definition pythonVsixUrl :: jsstring where
  "pythonVsixUrl = lit ''https://ms-python.gallery.vsassets.io/_apis/public/gallery/publisher/ms-python/extension/python/2024.0.0/assetbyname/Microsoft.VisualStudio.Services.VSIXPackage''"

definition pythonPackageUrl :: jsstring where
  "pythonPackageUrl = lit ''https://marketplace.visualstudio.com/_apis/public/gallery/publishers/ms-python/vsextensions/python/2024.0.0/vspackage''"

text \<open>Requests used as concrete inputs.\<close>

definition evilRequest :: download_request where
  "evilRequest =
     \<lparr>requestUrl = JString (lit ''https://evil.com/x.vsix''),
      requestFilename = JString (lit ''x.vsix'')\<rparr>"

definition malformedRequest :: download_request where
  "malformedRequest =
     \<lparr>requestUrl = JString (lit ''not a url''), requestFilename = JString (lit ''x.vsix'')\<rparr>"

definition rejected :: "jsstring \<Rightarrow> handled" where
  "rejected err = \<lparr>sent = Failure err, capabilityCalls = [], tracked = None\<rparr>"

text \<open>The two intermediate values of \<open>sanitized\<close> in \<open>sanitizeFilename\<close>.\<close>

definition cleaned :: "jsstring \<Rightarrow> jsstring" where
  "cleaned fname =
     trim (collapseSpaces (replaceLeadingDot (replaceDotDot
       (map (\<lambda>c. if forbiddenChar c then underscore else c) fname))))"

definition extended :: "jsstring \<Rightarrow> jsstring" where
  "extended fname =
     (if \<not> endsWith (cleaned fname) (lit ''.vsix'') \<and> \<not> endsWith (cleaned fname) (lit ''.vsixpackage'')
      then cleaned fname @ lit ''.vsix'' else cleaned fname)"

section \<open>The standalone enhanced script\<close>

text \<open>
  \<open>ExtensionManager\<close> of \<open>downloadVSIX-enhanced.js\<close>. Its \<open>data\<close> has the fields of the
  content script's descriptor and \<open>displayName\<close>. What \<open>extractMetadata\<close> reads:
  \<^item> \<open>metadataTable\<close>: \<open>None\<close> when neither \<open>.ux-table-metadata\<close> nor \<open>.metadata-table\<close>
    matches an element, otherwise the rows (\<open>tr\<close>) of the first match, each row the
    \<open>innerText\<close> of its \<open>td\<close> cells;
  \<^item> \<open>locationItemName\<close>: \<open>new URLSearchParams(window.location.search).get('itemName')\<close>.
\<close>

record manager_data = extension_data +
  displayName :: jsstring

definition emptyManagerData :: manager_data where
  "emptyManagerData =
     \<lparr>version = [], publisher = [], identifier' = [], name = [], displayName = []\<rparr>"

record enhanced_page =
  metadataTable :: "jsstring list list option"
  locationItemName :: "jsstring option"

text \<open>
  One row of the table: with at least two cells, the trimmed first cell is looked up in
  \<open>metadataMap\<close> and the trimmed second cell stored in the field it names. (A key that
  \<open>metadataMap\<close> only inherits names none of the five fields.)
\<close>

definition storeRow :: "jsstring list \<Rightarrow> manager_data \<Rightarrow> manager_data" where
  "storeRow cells d =
     (if length cells \<ge> 2
      then let key = trim (cells ! 0); val = trim (cells ! 1)
           in if key = lit ''Version'' then d\<lparr>version := val\<rparr>
              else if key = lit ''Publisher'' then d\<lparr>publisher := val\<rparr>
              else if key = lit ''Unique Identifier'' then d\<lparr>identifier' := val\<rparr>
              else if key = lit ''Extension Name'' then d\<lparr>name := val\<rparr>
              else if key = lit ''Display Name'' then d\<lparr>displayName := val\<rparr>
              else d
      else d)"

text \<open>\<open>Utils.validateExtensionData\<close>: throws when a required field is empty.\<close>

definition validateExtensionData :: "manager_data \<Rightarrow> js_error + bool" where
  "validateExtensionData d =
     (let missing =
            (if truthy (JString (version d)) then [] else [lit ''version'']) @
            (if truthy (JString (publisher d)) then [] else [lit ''publisher'']) @
            (if truthy (JString (identifier' d)) then [] else [lit ''identifier''])
      in if length missing > 0
         then Inl (Error (lit ''Missing required fields: '' @ join (lit '', '') missing))
         else Inr True)"

definition enhancedExtractMetadata :: "enhanced_page \<Rightarrow> manager_data \<Rightarrow> js_error + manager_data" where
  "enhancedExtractMetadata pg d =
     (case metadataTable pg of
        None \<Rightarrow> Inl (Error (lit ''Metadata table not found''))
      | Some rows \<Rightarrow>
          let d1 = foldl (\<lambda>acc cells. storeRow cells acc) d rows;
              d2 = (if \<not> truthy (JString (identifier' d1))
                    then d1\<lparr>identifier' :=
                             (case locationItemName pg of
                                None \<Rightarrow> []
                              | Some itemName \<Rightarrow> itemName)\<rparr>
                    else d1)
          in (case validateExtensionData d2 of
                Inl e \<Rightarrow> Inl e
              | Inr ok \<Rightarrow> Inr d2))"

text \<open>
  \<open>String.prototype.replace\<close> with a global pattern that matches one fixed text and a
  string replacement. In the replacement \<open>$$\<close> stands for \<open>$\<close>, \<open>$&\<close> for the matched
  text, \<open>$`\<close> for what precedes the match and \<open>$'\<close> for what follows it; with no
  capture groups every other \<open>$\<close> is literal.
\<close>

fun getSubstitution :: "jsstring \<Rightarrow> jsstring \<Rightarrow> jsstring \<Rightarrow> jsstring \<Rightarrow> jsstring" where
  "getSubstitution matched preceding following (c # d # cs) =
     (if c = 0x24 \<and> d = 0x24 then 0x24 # getSubstitution matched preceding following cs
      else if c = 0x24 \<and> d = 0x26 then matched @ getSubstitution matched preceding following cs
      else if c = 0x24 \<and> d = 0x60 then preceding @ getSubstitution matched preceding following cs
      else if c = 0x24 \<and> d = 0x27 then following @ getSubstitution matched preceding following cs
      else c # getSubstitution matched preceding following (d # cs))"
| "getSubstitution matched preceding following cs = cs"

function replaceAllFrom :: "jsstring \<Rightarrow> jsstring \<Rightarrow> jsstring \<Rightarrow> jsstring \<Rightarrow> jsstring" where
  "replaceAllFrom pat repl preceding [] = []"
| "replaceAllFrom pat repl preceding (c # cs) =
     (if pat \<noteq> [] \<and> take (length pat) (c # cs) = pat
      then getSubstitution pat preceding (drop (length pat) (c # cs)) repl @
           replaceAllFrom pat repl (preceding @ pat) (drop (length pat) (c # cs))
      else c # replaceAllFrom pat repl (preceding @ [c]) cs)"
  by pat_completeness auto
termination
  by (relation "measure (\<lambda>(pat, repl, preceding, s). length s)") auto

definition replaceAll :: "jsstring \<Rightarrow> jsstring \<Rightarrow> jsstring \<Rightarrow> jsstring" where
  "replaceAll pat repl s = replaceAllFrom pat repl [] s"

text \<open>
  \<open>CONFIG.urls[type]\<close>: the two own keys, a property inherited from
  \<open>Object.prototype\<close> (a function or an object), or \<open>undefined\<close>.
\<close>

definition vsixTemplate :: jsstring where
  "vsixTemplate = lit ''https://${publisher}.gallery.vsassets.io/_apis/public/gallery/publisher/${publisher}/extension/${extension}/${version}/assetbyname/Microsoft.VisualStudio.Services.VSIXPackage''"

definition vsixPackageTemplate :: jsstring where
  "vsixPackageTemplate = lit ''https://marketplace.visualstudio.com/_apis/public/gallery/publishers/${publisher}/vsextensions/${extension}/${version}/vspackage''"

definition inheritedKeys :: "jsstring list" where
  "inheritedKeys =
     [lit ''constructor'', lit ''__proto__'', lit ''hasOwnProperty'', lit ''isPrototypeOf'',
      lit ''propertyIsEnumerable'', lit ''toLocaleString'', lit ''toString'', lit ''valueOf'',
      lit ''__defineGetter__'', lit ''__defineSetter__'', lit ''__lookupGetter__'',
      lit ''__lookupSetter__'']"

definition configUrls :: "jsstring \<Rightarrow> jsvalue" where
  "configUrls type =
     (if type = lit ''vsix'' then JString vsixTemplate
      else if type = lit ''vsixPackage'' then JString vsixPackageTemplate
      else if type \<in> set inheritedKeys then JTruthy
      else JFalsy)"

text \<open>
  \<open>getDownloadUrl\<close>: publisher and extension are the first two parts of the identifier
  (\<open>undefined\<close>, written out as text by \<open>replace\<close>, when there is no second part); a
  template that is not a string has no \<open>replace\<close>.
\<close>

definition getDownloadUrl :: "manager_data \<Rightarrow> jsstring \<Rightarrow> js_error + jsstring" where
  "getDownloadUrl d type =
     (let parts = split dot (identifier' d);
          pub = parts ! 0;
          extension = (if length parts \<ge> 2 then parts ! 1 else lit ''undefined'');
          template = (if truthy (configUrls type) then configUrls type else JString vsixTemplate)
      in (case template of
            JString t \<Rightarrow>
              Inr (replaceAll (lit ''${version}'') (version d)
                    (replaceAll (lit ''${extension}'') extension
                      (replaceAll (lit ''${publisher}'') pub t)))
          | _ \<Rightarrow> Inl TypeError))"

text \<open>Inputs of the enhanced script used as concrete cases.\<close>

definition noTablePage :: enhanced_page where
  "noTablePage = \<lparr>metadataTable = None, locationItemName = Some (lit ''ms-python.python'')\<rparr>"

definition buildData :: manager_data where
  "buildData =
     \<lparr>version = lit ''1.0.0+1'', publisher = lit ''ms-python'',
      identifier' = lit ''ms-python.python'', name = lit ''python'', displayName = lit ''Python''\<rparr>"

section \<open>Splitting on the first dot\<close>

lemma split_nonempty: "split sep s \<noteq> []"
  by (induction s) (auto split: list.splits)

lemma hd_split: "hd (split sep s) = takeWhile (\<lambda>c. c \<noteq> sep) s"
proof (induction s)
  case Nil
  show ?case by simp
next
  case (Cons c cs)
  then show ?case
    using split_nonempty [of sep cs] by (auto split: list.splits)
qed

lemma join_split: "join [sep] (split sep s) = s"
proof (induction s)
  case Nil
  show ?case by simp
next
  case (Cons c cs)
  show ?case
  proof (cases "c = sep")
    case True
    obtain p ps where "split sep cs = p # ps"
      using split_nonempty [of sep cs] by (cases "split sep cs") auto
    with True Cons show ?thesis by simp
  next
    case False
    obtain p ps where sp: "split sep cs = p # ps"
      using split_nonempty [of sep cs] by (cases "split sep cs") auto
    with False Cons show ?thesis by (cases ps) auto
  qed
qed

lemma length_split: "length (split sep s) = Suc (length (filter (\<lambda>c. c = sep) s))"
  by (induction s) (auto split: list.splits simp: split_nonempty)

lemma tl_split_join:
  "sep \<in> set s \<Longrightarrow> join [sep] (drop 1 (split sep s)) = tl (dropWhile (\<lambda>c. c \<noteq> sep) s)"
proof (induction s)
  case Nil
  then show ?case by simp
next
  case (Cons c cs)
  show ?case
  proof (cases "c = sep")
    case True
    then show ?thesis by (simp add: join_split)
  next
    case False
    with Cons.prems have mem: "sep \<in> set cs" by simp
    obtain p ps where sp: "split sep cs = p # ps"
      using split_nonempty [of sep cs] by (cases "split sep cs") auto
    from Cons.IH [OF mem] sp False show ?thesis by simp
  qed
qed

lemma split_two_parts: "sep \<in> set s \<Longrightarrow> 2 \<le> length (split sep s)"
proof -
  assume "sep \<in> set s"
  then have "filter (\<lambda>c. c = sep) s \<noteq> []"
    by (simp add: filter_empty_conv)
  then have "0 < length (filter (\<lambda>c. c = sep) s)"
    by simp
  then have "2 \<le> Suc (length (filter (\<lambda>c. c = sep) s))"
    by arith
  then show ?thesis
    by (simp only: length_split)
qed

text \<open>
  C2 (as amended). When the \<open>itemName\<close> parameter is present and contains a dot,
  \<open>extractFromURL\<close> sets \<open>identifier\<close> to the sanitized parameter, \<open>publisher\<close> to the
  sanitized part before the first dot and \<open>name\<close> to the sanitized remainder after the
  first dot (further dots kept); \<open>version\<close> is untouched.
\<close>

theorem extractFromURL_first_dot:
  assumes "itemNameParam pg = Inr (Some itemName)" and "dot \<in> set itemName"
  shows "extractFromURL pg d =
           Inr (d\<lparr>identifier' := sanitizeText (JString itemName),
                  publisher := sanitizeText (JString (takeWhile (\<lambda>c. c \<noteq> dot) itemName)),
                  name := sanitizeText (JString (tl (dropWhile (\<lambda>c. c \<noteq> dot) itemName)))\<rparr>)"
proof -
  from assms(2) have ne: "itemName \<noteq> []" by auto
  have two: "2 \<le> length (split dot itemName)"
    using assms(2) by (rule split_two_parts)
  have first: "split dot itemName ! 0 = takeWhile (\<lambda>c. c \<noteq> dot) itemName"
    using hd_split [of dot itemName] split_nonempty [of dot itemName]
    by (simp add: hd_conv_nth)
  have rest: "join [dot] (drop 1 (split dot itemName)) = tl (dropWhile (\<lambda>c. c \<noteq> dot) itemName)"
    using assms(2) by (rule tl_split_join)
  show ?thesis
    using assms(1) ne two first rest
    by (simp add: extractFromURL_def tryCatch_def Let_def)
qed

theorem extractFromURL_first_dot_witness:
  "itemNameParam (paramPage (lit ''publisher.ext'')) = Inr (Some (lit ''publisher.ext'')) \<and>
   dot \<in> set (lit ''publisher.ext'') \<and>
   extractFromURL (paramPage (lit ''publisher.ext'')) emptyData =
     Inr \<lparr>version = [], publisher = lit ''publisher'', identifier' = lit ''publisher.ext'',
          name = lit ''ext''\<rparr>"
proof -
  have p: "itemNameParam (paramPage (lit ''publisher.ext'')) = Inr (Some (lit ''publisher.ext''))"
    by (simp add: paramPage_def)
  have m: "dot \<in> set (lit ''publisher.ext'')"
    by (simp add: lit_def dot_def)
  show ?thesis
    using p m extractFromURL_first_dot [OF p m, of emptyData]
    by (simp add: emptyData_def lit_def dot_def trim_def isSpace_def strippedChar_def)
qed

text \<open>
  C2 as stated fails: the parameter value \<open>a&b.c\<close> contains a dot, yet the identifier
  stored is \<open>ab.c\<close> and the publisher \<open>ab\<close>, not the verbatim value and its first part.
\<close>

theorem extractFromURL_verbatim_counterexample:
  "extractFromURL (paramPage (lit ''a&b.c'')) emptyData =
     Inr \<lparr>version = [], publisher = lit ''ab'', identifier' = lit ''ab.c'', name = lit ''c''\<rparr> \<and>
   lit ''ab.c'' \<noteq> lit ''a&b.c'' \<and> lit ''ab'' \<noteq> lit ''a&b''"
  by (simp add: extractFromURL_def tryCatch_def paramPage_def emptyData_def lit_def dot_def
      trim_def isSpace_def strippedChar_def Let_def)


section \<open>Completeness of a descriptor\<close>

lemmas eval_defs = extractMetadata_def extractFromURL_def extractVersion_def
  extractVersionFromStructuredData_def extractVersionFromDOM_def extractVersionFromPageData_def
  tryCatch_def paramPage_def versionCellPage_def throwingPage_def emptyData_def lit_def dot_def
  trim_def isSpace_def strippedChar_def versionSelectors_def mentionsVersion_def toLowerAscii_def
  matchVersion_def matchVersionAt_def digits1_def literalDot_def endBoundary_def isDigit_def
  isWordChar_def Let_def

text \<open>
  C3 (as amended). \<open>hasValidData\<close>, the completeness test of the content script, is true
  if and only if \<open>identifier\<close>, \<open>version\<close> and \<open>publisher\<close> are all non-empty; it looks
  neither at the extension name nor at the shape of the version.
\<close>

theorem hasValidData_iff:
  "hasValidData d \<longleftrightarrow> identifier' d \<noteq> [] \<and> version d \<noteq> [] \<and> publisher d \<noteq> []"
  by (simp add: hasValidData_def)

theorem hasValidData_iff_witness:
  "hasValidData pythonData \<and> \<not> hasValidData emptyData"
  using hasValidData_iff [of pythonData] hasValidData_iff [of emptyData]
  by (simp add: pythonData_def emptyData_def lit_def)

text \<open>
  C3 as stated fails: the page \<open>?itemName=pub.\<close> with a cell \<open>Version 1.0.0\<close> is extracted
  to a descriptor with an empty extension name, which \<open>hasValidData\<close> accepts.
\<close>

theorem isComplete_counterexample:
  "extractMetadata (versionCellPage (lit ''pub.'') (lit ''Version 1.0.0'')) emptyData =
     Inr \<lparr>version = lit ''1.0.0'', publisher = lit ''pub'', identifier' = lit ''pub.'', name = []\<rparr> \<and>
   hasValidData
     \<lparr>version = lit ''1.0.0'', publisher = lit ''pub'', identifier' = lit ''pub.'', name = []\<rparr> \<and>
   name \<lparr>version = lit ''1.0.0'', publisher = lit ''pub'', identifier' = lit ''pub.'', name = []\<rparr> = []"
  by (simp add: eval_defs hasValidData_def)

section \<open>Extraction returns\<close>

lemma extractFromURL_returns: "\<exists>d1. extractFromURL pg d = Inr d1"
  by (auto simp: extractFromURL_def tryCatch_def Let_def split: sum.splits option.splits)

lemma extractFromURL_absent:
  assumes "itemNameParam pg = Inr None \<or> (\<exists>e. itemNameParam pg = Inl e)"
  shows "extractFromURL pg d = Inr d"
  using assms by (auto simp: extractFromURL_def tryCatch_def)

lemma extractVersion_returns:
  "\<exists>d2. extractVersion pg d1 = Inr d2 \<and> identifier' d2 = identifier' d1 \<and>
     publisher d2 = publisher d1 \<and> name d2 = name d1 \<and>
     (extractVersionFromStructuredData pg = Inr None \<and> extractVersionFromDOM pg = Inr None \<and>
      extractVersionFromPageData pg = Inr None \<longrightarrow> version d2 = version d1)"
proof -
  have a: "\<exists>r. extractVersionFromStructuredData pg = Inr r"
    by (auto simp: extractVersionFromStructuredData_def tryCatch_def split: sum.splits)
  have b: "\<exists>r. extractVersionFromDOM pg = Inr r"
    by (auto simp: extractVersionFromDOM_def split: option.splits)
  have c: "\<exists>r. extractVersionFromPageData pg = Inr r"
    by (auto simp: extractVersionFromPageData_def tryCatch_def
        split: sum.splits option.splits jsvalue.splits)
  from a b c show ?thesis
    by (auto simp: extractVersion_def split: option.splits)
qed



lemma extractMetadata_fields:
  "\<exists>d'. extractMetadata pg d = Inr d' \<and>
     (itemNameParam pg = Inr None \<or> (\<exists>e. itemNameParam pg = Inl e) \<longrightarrow>
        identifier' d' = identifier' d \<and> publisher d' = publisher d \<and> name d' = name d) \<and>
     (extractVersionFromStructuredData pg = Inr None \<and> extractVersionFromDOM pg = Inr None \<and>
      extractVersionFromPageData pg = Inr None \<longrightarrow> version d' = version d)"
proof -
  obtain d1 where d1: "extractFromURL pg d = Inr d1"
    using extractFromURL_returns by blast
  obtain d2 where d2: "extractVersion pg d1 = Inr d2"
    and keep: "identifier' d2 = identifier' d1" "publisher d2 = publisher d1" "name d2 = name d1"
    and ver: "extractVersionFromStructuredData pg = Inr None \<and>
      extractVersionFromDOM pg = Inr None \<and> extractVersionFromPageData pg = Inr None
      \<longrightarrow> version d2 = version d1"
    using extractVersion_returns [of pg d1] by blast
  have m: "extractMetadata pg d = Inr d2"
    using d1 d2 by (simp add: extractMetadata_def)
  have url: "version d1 = version d"
    using d1 by (auto simp: extractFromURL_def tryCatch_def Let_def
        split: sum.splits option.splits if_splits)
  have absent: "d1 = d" if "itemNameParam pg = Inr None \<or> (\<exists>e. itemNameParam pg = Inl e)"
    using extractFromURL_absent [OF that, of d] d1 by simp
  show ?thesis
    using m keep ver url absent by auto
qed


text \<open>
  C8 (as amended). \<open>extractMetadata\<close> of the content script returns a descriptor for every page and
  every descriptor it starts from, whichever of the reads it guards throw. With the
  \<open>itemName\<close> parameter absent (or its read failing) the identifier, publisher and name
  are left as they were, and when no strategy finds a version the version is left as it
  was: from the empty descriptor they stay empty strings.
\<close>

theorem extractMetadata_never_throws:
  "\<exists>d'. extractMetadata pg d = Inr d' \<and>
     (itemNameParam pg = Inr None \<or> (\<exists>e. itemNameParam pg = Inl e) \<longrightarrow>
        identifier' d' = identifier' d \<and> publisher d' = publisher d \<and> name d' = name d) \<and>
     (extractVersionFromStructuredData pg = Inr None \<and> extractVersionFromDOM pg = Inr None \<and>
      extractVersionFromPageData pg = Inr None \<longrightarrow> version d' = version d)"
  by (rule extractMetadata_fields)

theorem extractMetadata_never_throws_witness:
  "extractMetadata throwingPage emptyData = Inr emptyData"
proof -
  have none: "extractVersionFromStructuredData throwingPage = Inr None"
    "extractVersionFromDOM throwingPage = Inr None"
    "extractVersionFromPageData throwingPage = Inr None"
    by (simp_all add: eval_defs)
  have param: "\<exists>e. itemNameParam throwingPage = Inl e"
    by (simp add: throwingPage_def)
  obtain d' where "extractMetadata throwingPage emptyData = Inr d'"
    and "identifier' d' = identifier' emptyData" "publisher d' = publisher emptyData"
      "name d' = name emptyData" "version d' = version emptyData"
    using extractMetadata_never_throws [of throwingPage emptyData] none param by auto
  then show ?thesis
    by (cases d') (simp add: emptyData_def)
qed

section \<open>The settings read and injection\<close>

text \<open>
  C10. When the read of \<open>autoInject\<close> rejects, \<open>checkAutoInject\<close> does exactly what it
  does when the read gives \<open>true\<close>: unless the buttons were injected before, it calls
  \<open>injectDownloadButtons\<close>.
\<close>

theorem checkAutoInject_settings_failure:
  assumes "settingsRead pg = Inl e"
  shows "checkAutoInject pg s = checkAutoInject (pg\<lparr>settingsRead := Inr True\<rparr>) s \<and>
         checkAutoInject pg s = Inr (if isInjected s then s else injectDownloadButtons pg s)"
  using assms by (simp add: checkAutoInject_def tryCatch_def injectDownloadButtons_def)

theorem checkAutoInject_settings_failure_witness:
  "settingsRead throwingPage = Inl (Error (lit ''storage unavailable'')) \<and>
   checkAutoInject throwingPage (newDownloader\<lparr>extensionData := pythonData\<rparr>) =
     Inr (newDownloader\<lparr>extensionData := pythonData, isInjected := True,
           containerPresent := True\<rparr>)"
proof -
  have r: "settingsRead throwingPage = Inl (Error (lit ''storage unavailable''))"
    by (simp add: throwingPage_def)
  let ?s = "newDownloader\<lparr>extensionData := pythonData\<rparr>"
  have "checkAutoInject throwingPage ?s =
      Inr (if isInjected ?s then ?s else injectDownloadButtons throwingPage ?s)"
    using checkAutoInject_settings_failure [OF r, of ?s] by blast
  also have "(if isInjected ?s then ?s else injectDownloadButtons throwingPage ?s) =
      newDownloader\<lparr>extensionData := pythonData, isInjected := True, containerPresent := True\<rparr>"
    by (simp add: injectDownloadButtons_def newDownloader_def hasValidData_def pythonData_def
        throwingPage_def lit_def)
  finally show ?thesis
    using r by simp
qed

section \<open>The retry loop\<close>
















section \<open>Message retry of the popup\<close>









section \<open>File names of the download requests\<close>

lemma encode_plain:
  "encodeURIComponent (lit ''ms-python'') = Inr (lit ''ms-python'')"
  "encodeURIComponent (lit ''python'') = Inr (lit ''python'')"
  "encodeURIComponent (lit ''2024.0.0'') = Inr (lit ''2024.0.0'')"
  by (simp_all add: lit_def uriUnreserved_def)

lemma downloadFile_python_package:
  "downloadFile (lit ''ms-python'') (lit ''python'') (lit ''2024.0.0'') (lit ''vsixpackage'') =
     Inr \<lparr>url = pythonPackageUrl, filename = lit ''ms-python.python-2024.0.0.vsixpackage''\<rparr>"
  by (simp add: downloadFile_def encode_plain) (simp add: lit_def pythonPackageUrl_def)

lemma downloadFile_python_vsix:
  "downloadFile (lit ''ms-python'') (lit ''python'') (lit ''2024.0.0'') (lit ''vsix'') =
     Inr \<lparr>url = pythonVsixUrl, filename = lit ''ms-python.python-2024.0.0.vsix''\<rparr>"
  by (simp add: downloadFile_def encode_plain) (simp add: lit_def pythonVsixUrl_def)

lemma handleDownload_python_vsix:
  "handleDownload (Some pythonData) (lit ''vsix'') =
     Inr (Some \<lparr>url = pythonVsixUrl, filename = lit ''ms-python.python-2024.0.0.vsix''\<rparr>)"
proof -
  have parts: "split dot (lit ''ms-python.python'') = [lit ''ms-python'', lit ''python'']"
    by (simp add: lit_def dot_def)
  show ?thesis
    by (simp add: handleDownload_def pythonData_def parts encode_plain Let_def)
      (simp add: lit_def pythonVsixUrl_def)
qed

text \<open>
  C5 (as amended). The file name in the content script's download request is
  \<open>{publisher}.{extensionName}-{version}\<close> and the one the popup hands to the download
  capability is \<open>{identifier}-{version}\<close>, each followed by \<open>.vsix\<close> for kind \<open>vsix\<close> and by
  \<open>.vsixpackage\<close> otherwise: a hyphen separates identifier and version. The underscore
  form \<open>{identifier}_{version}.{type}\<close> is what \<open>getFileName\<close> of the standalone scripts
  gives.
\<close>

theorem download_filenames:
  "(downloadFile pub extension ver type = Inr m \<longrightarrow>
      filename m = pub @ lit ''.'' @ extension @ lit ''-'' @ ver @
        (if type = lit ''vsix'' then lit ''.vsix'' else lit ''.vsixpackage'')) \<and>
   (handleDownload (Some d) type = Inr (Some m') \<longrightarrow>
      filename m' = identifier' d @ lit ''-'' @ version d @
        (if type = lit ''vsix'' then lit ''.vsix'' else lit ''.vsixpackage'')) \<and>
   getFileName ident ver type = ident @ lit ''_'' @ ver @ lit ''.'' @ type"
  by (auto simp: downloadFile_def handleDownload_def getFileName_def Let_def
      split: sum.splits if_splits)

theorem download_filenames_witness:
  "downloadFile (lit ''ms-python'') (lit ''python'') (lit ''2024.0.0'') (lit ''vsixpackage'') =
     Inr \<lparr>url = pythonPackageUrl, filename = lit ''ms-python.python-2024.0.0.vsixpackage''\<rparr> \<and>
   handleDownload (Some pythonData) (lit ''vsix'') =
     Inr (Some \<lparr>url = pythonVsixUrl, filename = lit ''ms-python.python-2024.0.0.vsix''\<rparr>) \<and>
   lit ''ms-python.python-2024.0.0.vsixpackage'' =
     lit ''ms-python'' @ lit ''.'' @ lit ''python'' @ lit ''-'' @ lit ''2024.0.0'' @ lit ''.vsixpackage'' \<and>
   lit ''ms-python.python-2024.0.0.vsix'' =
     identifier' pythonData @ lit ''-'' @ version pythonData @ lit ''.vsix'' \<and>
   getFileName (lit ''ms-python.python'') (lit ''2024.0.0'') (lit ''vsix'') =
     lit ''ms-python.python_2024.0.0.vsix''"
proof -
  note a = downloadFile_python_package
  note b = handleDownload_python_vsix
  have c: "lit ''ms-python.python-2024.0.0.vsixpackage'' =
     lit ''ms-python'' @ lit ''.'' @ lit ''python'' @ lit ''-'' @ lit ''2024.0.0'' @ lit ''.vsixpackage''"
    using a download_filenames [where pub = "lit ''ms-python''" and extension = "lit ''python''"
        and ver = "lit ''2024.0.0''" and type = "lit ''vsixpackage''"
        and m = "\<lparr>url = pythonPackageUrl, filename = lit ''ms-python.python-2024.0.0.vsixpackage''\<rparr>"]
    by (simp add: lit_def)
  have d: "lit ''ms-python.python-2024.0.0.vsix'' =
     identifier' pythonData @ lit ''-'' @ version pythonData @ lit ''.vsix''"
    using b download_filenames [where type = "lit ''vsix''" and d = pythonData
        and m' = "\<lparr>url = pythonVsixUrl, filename = lit ''ms-python.python-2024.0.0.vsix''\<rparr>"]
    by simp
  have e: "getFileName (lit ''ms-python.python'') (lit ''2024.0.0'') (lit ''vsix'') =
     lit ''ms-python.python_2024.0.0.vsix''"
    using download_filenames [where ver = "lit ''2024.0.0''" and type = "lit ''vsix''"
        and ident = "lit ''ms-python.python''"]
    by (simp add: lit_def)
  from a b c d e show ?thesis by blast
qed

text \<open>
  C5 as stated fails: for \<open>ms-python.python\<close> 2024.0.0 and kind \<open>vsix\<close> the content script
  requests the file name \<open>ms-python.python-2024.0.0.vsix\<close>, with a hyphen where the claim
  has an underscore.
\<close>

theorem underscore_filename_counterexample:
  "map_sum id filename
     (downloadFile (lit ''ms-python'') (lit ''python'') (lit ''2024.0.0'') (lit ''vsix'')) =
     Inr (lit ''ms-python.python-2024.0.0.vsix'') \<and>
   lit ''ms-python.python-2024.0.0.vsix'' \<noteq> lit ''ms-python.python_2024.0.0.vsix''"
  by (simp add: downloadFile_python_vsix) (simp add: lit_def)

section \<open>Download URLs\<close>

lemma encodeURIComponent_plain:
  "\<forall>c \<in> set s. uriUnreserved c \<Longrightarrow> encodeURIComponent s = Inr s"
  by (induction s rule: encodeURIComponent.induct) auto

lemma encodeURIComponent_returns:
  "\<forall>c \<in> set s. \<not> isLeadSurrogate c \<and> \<not> isTrailSurrogate c \<Longrightarrow>
   \<exists>r. encodeURIComponent s = Inr r"
proof (induction s rule: encodeURIComponent.induct)
  case 1
  show ?case by simp
next
  case (2 c)
  then show ?case by simp
next
  case (3 c d cs)
  from "3.prems" have rest: "\<forall>x \<in> set (d # cs). \<not> isLeadSurrogate x \<and> \<not> isTrailSurrogate x"
    and c: "\<not> isLeadSurrogate c" "\<not> isTrailSurrogate c"
    by simp_all
  show ?case
  proof (cases "uriUnreserved c")
    case True
    with "3.IH"(1) rest obtain r where "encodeURIComponent (d # cs) = Inr r" by blast
    with True show ?thesis by simp
  next
    case False
    with "3.IH"(3) c rest obtain r where "encodeURIComponent (d # cs) = Inr r" by blast
    with False c show ?thesis by simp
  qed
qed

text \<open>
  C1 (as amended). For every publisher, extension name and version that
  \<open>encodeURIComponent\<close> accepts (every string without an unpaired surrogate), the URL of
  \<open>downloadFile\<close> of the content script is, for kind
  \<open>vsix\<close>, the gallery template and, for kind \<open>vsixpackage\<close>, the marketplace template,
  with each of the three segments replaced by its own percent-encoding and with the
  hosts and the asset name fixed.
\<close>

theorem downloadFile_url:
  assumes "encodeURIComponent pub = Inr p" and "encodeURIComponent extension = Inr e"
    and "encodeURIComponent ver = Inr v"
  shows "map_sum id url (downloadFile pub extension ver (lit ''vsix'')) =
           Inr (lit ''https://'' @ p @ lit ''.gallery.vsassets.io/_apis/public/gallery/publisher/'' @
                p @ lit ''/extension/'' @ e @ lit ''/'' @ v @
                lit ''/assetbyname/Microsoft.VisualStudio.Services.VSIXPackage'') \<and>
         map_sum id url (downloadFile pub extension ver (lit ''vsixpackage'')) =
           Inr (lit ''https://marketplace.visualstudio.com/_apis/public/gallery/publishers/'' @
                p @ lit ''/vsextensions/'' @ e @ lit ''/'' @ v @ lit ''/vspackage'')"
proof -
  have "lit ''vsixpackage'' \<noteq> lit ''vsix''"
    by (simp add: lit_def)
  then show ?thesis
    using assms by (simp add: downloadFile_def)
qed

theorem downloadFile_url_witness:
  "encodeURIComponent (lit ''ms-python'') = Inr (lit ''ms-python'') \<and>
   encodeURIComponent (lit ''my ext'') = Inr (lit ''my%20ext'') \<and>
   encodeURIComponent (lit ''1.0.0+1'') = Inr (lit ''1.0.0%2B1'') \<and>
   map_sum id url (downloadFile (lit ''ms-python'') (lit ''my ext'') (lit ''1.0.0+1'') (lit ''vsix'')) =
     Inr (lit ''https://ms-python.gallery.vsassets.io/_apis/public/gallery/publisher/ms-python/extension/my%20ext/1.0.0%2B1/assetbyname/Microsoft.VisualStudio.Services.VSIXPackage'') \<and>
   map_sum id url (downloadFile (lit ''ms-python'') (lit ''my ext'') (lit ''1.0.0+1'') (lit ''vsixpackage'')) =
     Inr (lit ''https://marketplace.visualstudio.com/_apis/public/gallery/publishers/ms-python/vsextensions/my%20ext/1.0.0%2B1/vspackage'')"
proof -
  have p: "encodeURIComponent (lit ''ms-python'') = Inr (lit ''ms-python'')"
    by (rule encode_plain)
  have e: "encodeURIComponent (lit ''my ext'') = Inr (lit ''my%20ext'')"
    by (simp add: lit_def uriUnreserved_def isLeadSurrogate_def isTrailSurrogate_def
        escapeCodePoint_def utf8_def percentEscape_def hexDigit_def)
  have v: "encodeURIComponent (lit ''1.0.0+1'') = Inr (lit ''1.0.0%2B1'')"
    by (simp add: lit_def uriUnreserved_def isLeadSurrogate_def isTrailSurrogate_def
        escapeCodePoint_def utf8_def percentEscape_def hexDigit_def)
  show ?thesis
    using p e v downloadFile_url [OF p e v] by (simp add: lit_def)
qed

section \<open>Validation before the download capability\<close>

lemma isAllowedDomain_iff:
  "isAllowedDomain host \<longleftrightarrow>
     host = lit ''marketplace.visualstudio.com'' \<or>
     endsWith host (lit ''.marketplace.visualstudio.com'') \<or>
     host = lit ''gallery.vsassets.io'' \<or> endsWith host (lit ''.gallery.vsassets.io'')"
  by (auto simp: isAllowedDomain_def allowedDomains_def lit_def)

lemma handleDownloadRequest_invalid:
  "validateDownloadRequest parseUrl request = Invalid err \<Longrightarrow>
   handleDownloadRequest parseUrl download request = rejected err"
  by (simp add: handleDownloadRequest_def rejected_def)

lemma handleDownloadRequest_calls:
  assumes "capabilityCalls (handleDownloadRequest parseUrl download request) \<noteq> []"
  shows "\<exists>u urlObj. requestUrl request = JString u \<and> parseUrl u = Some urlObj \<and>
           protocol urlObj = lit ''https:'' \<and> isAllowedDomain (hostname urlObj)"
proof (cases "validateDownloadRequest parseUrl request")
  case (Invalid err)
  with assms show ?thesis
    by (simp add: handleDownloadRequest_def)
next
  case Valid
  then show ?thesis
    by (auto simp: validateDownloadRequest_def isString_def
        split: if_splits jsvalue.splits option.splits)
qed

text \<open>
  C6 (as amended). \<open>handleDownloadRequest\<close> calls the download capability only for a
  request whose URL parses, has the protocol \<open>https:\<close> and a host that equals
  \<open>marketplace.visualstudio.com\<close> or \<open>gallery.vsassets.io\<close> or ends with a dot and one of
  them. Every other request is answered with a failure and no capability call: a URL or
  file name that is missing, empty or not a string with "Invalid or missing URL" or
  "Invalid or missing filename", a URL that does not parse with "Malformed URL", a host
  outside the list with "Domain not allowed: host", and an allowed host under another
  protocol with "Only HTTPS URLs are allowed".
\<close>

theorem validated_before_download:
  "(capabilityCalls (handleDownloadRequest parseUrl download request) \<noteq> [] \<longrightarrow>
      (\<exists>u urlObj. requestUrl request = JString u \<and> parseUrl u = Some urlObj \<and>
         protocol urlObj = lit ''https:'' \<and>
         (hostname urlObj = lit ''marketplace.visualstudio.com'' \<or>
          endsWith (hostname urlObj) (lit ''.marketplace.visualstudio.com'') \<or>
          hostname urlObj = lit ''gallery.vsassets.io'' \<or>
          endsWith (hostname urlObj) (lit ''.gallery.vsassets.io'')))) \<and>
   (\<not> truthy (requestUrl request) \<or> \<not> isString (requestUrl request) \<longrightarrow>
      handleDownloadRequest parseUrl download request =
        rejected (lit ''Invalid or missing URL'')) \<and>
   (requestUrl request = JString u \<and> u \<noteq> [] \<longrightarrow>
      (\<not> truthy (requestFilename request) \<or> \<not> isString (requestFilename request) \<longrightarrow>
         handleDownloadRequest parseUrl download request =
           rejected (lit ''Invalid or missing filename'')) \<and>
      (requestFilename request = JString f \<and> f \<noteq> [] \<longrightarrow>
         (parseUrl u = None \<longrightarrow>
            handleDownloadRequest parseUrl download request = rejected (lit ''Malformed URL'')) \<and>
         (parseUrl u = Some urlObj \<and> \<not> isAllowedDomain (hostname urlObj) \<longrightarrow>
            handleDownloadRequest parseUrl download request =
              rejected (lit ''Domain not allowed: '' @ hostname urlObj)) \<and>
         (parseUrl u = Some urlObj \<and> isAllowedDomain (hostname urlObj) \<and>
          protocol urlObj \<noteq> lit ''https:'' \<longrightarrow>
            handleDownloadRequest parseUrl download request =
              rejected (lit ''Only HTTPS URLs are allowed''))))"
proof -
  have calls: "capabilityCalls (handleDownloadRequest parseUrl download request) \<noteq> [] \<longrightarrow>
      (\<exists>u urlObj. requestUrl request = JString u \<and> parseUrl u = Some urlObj \<and>
         protocol urlObj = lit ''https:'' \<and>
         (hostname urlObj = lit ''marketplace.visualstudio.com'' \<or>
          endsWith (hostname urlObj) (lit ''.marketplace.visualstudio.com'') \<or>
          hostname urlObj = lit ''gallery.vsassets.io'' \<or>
          endsWith (hostname urlObj) (lit ''.gallery.vsassets.io'')))"
    using handleDownloadRequest_calls [of parseUrl download request]
    by (simp only: isAllowedDomain_iff) blast
  have nourl: "\<not> truthy (requestUrl request) \<or> \<not> isString (requestUrl request) \<longrightarrow>
      handleDownloadRequest parseUrl download request = rejected (lit ''Invalid or missing URL'')"
    by (auto intro!: handleDownloadRequest_invalid simp: validateDownloadRequest_def)
  have rest: "requestUrl request = JString u \<and> u \<noteq> [] \<longrightarrow>
      (\<not> truthy (requestFilename request) \<or> \<not> isString (requestFilename request) \<longrightarrow>
         handleDownloadRequest parseUrl download request =
           rejected (lit ''Invalid or missing filename'')) \<and>
      (requestFilename request = JString f \<and> f \<noteq> [] \<longrightarrow>
         (parseUrl u = None \<longrightarrow>
            handleDownloadRequest parseUrl download request = rejected (lit ''Malformed URL'')) \<and>
         (parseUrl u = Some urlObj \<and> \<not> isAllowedDomain (hostname urlObj) \<longrightarrow>
            handleDownloadRequest parseUrl download request =
              rejected (lit ''Domain not allowed: '' @ hostname urlObj)) \<and>
         (parseUrl u = Some urlObj \<and> isAllowedDomain (hostname urlObj) \<and>
          protocol urlObj \<noteq> lit ''https:'' \<longrightarrow>
            handleDownloadRequest parseUrl download request =
              rejected (lit ''Only HTTPS URLs are allowed'')))"
    by (auto intro!: handleDownloadRequest_invalid simp: validateDownloadRequest_def isString_def)
  from calls nourl rest show ?thesis by blast
qed

theorem validated_before_download_witness:
  "parsesTo (lit ''https:'') (lit ''evil.com'') (lit ''https://evil.com/x.vsix'') =
     Some \<lparr>protocol = lit ''https:'', hostname = lit ''evil.com''\<rparr> \<and>
   \<not> isAllowedDomain (lit ''evil.com'') \<and>
   handleDownloadRequest (parsesTo (lit ''https:'') (lit ''evil.com'')) downloadOk evilRequest =
     rejected (lit ''Domain not allowed: evil.com'') \<and>
   capabilityCalls (handleDownloadRequest (parsesTo (lit ''https:'') (lit ''evil.com'')) downloadOk evilRequest) = []"
proof -
  have p: "parsesTo (lit ''https:'') (lit ''evil.com'') (lit ''https://evil.com/x.vsix'') =
     Some \<lparr>protocol = lit ''https:'', hostname = lit ''evil.com''\<rparr>"
    by (simp add: parsesTo_def)
  have n: "\<not> isAllowedDomain (lit ''evil.com'')"
    by (simp add: isAllowedDomain_def allowedDomains_def endsWith_def lit_def)
  have n': "\<not> isAllowedDomain (hostname \<lparr>protocol = lit ''https:'', hostname = lit ''evil.com''\<rparr>)"
    using n by simp
  have r: "requestUrl evilRequest = JString (lit ''https://evil.com/x.vsix'')"
    "lit ''https://evil.com/x.vsix'' \<noteq> []"
    "requestFilename evilRequest = JString (lit ''x.vsix'')" "lit ''x.vsix'' \<noteq> []"
    by (simp_all add: evilRequest_def lit_def)
  have "handleDownloadRequest (parsesTo (lit ''https:'') (lit ''evil.com'')) downloadOk evilRequest =
      rejected (lit ''Domain not allowed: '' @ hostname \<lparr>protocol = lit ''https:'', hostname = lit ''evil.com''\<rparr>)"
    using validated_before_download [where parseUrl = "parsesTo (lit ''https:'') (lit ''evil.com'')"
        and download = downloadOk and request = evilRequest
        and u = "lit ''https://evil.com/x.vsix''" and f = "lit ''x.vsix''"
        and urlObj = "\<lparr>protocol = lit ''https:'', hostname = lit ''evil.com''\<rparr>"] p n' r
    by blast
  then have h: "handleDownloadRequest (parsesTo (lit ''https:'') (lit ''evil.com'')) downloadOk evilRequest =
      rejected (lit ''Domain not allowed: evil.com'')"
    by (simp add: lit_def)
  show ?thesis
    using p n h by (simp add: rejected_def)
qed

text \<open>
  C6 as stated fails: a request whose URL does not parse is rejected with
  "Malformed URL", which is neither the domain error nor the protocol error.
\<close>

theorem malformed_url_counterexample:
  "handleDownloadRequest neverParses downloadOk malformedRequest =
     rejected (lit ''Malformed URL'') \<and>
   lit ''Malformed URL'' \<noteq> lit ''Only HTTPS URLs are allowed'' \<and>
   take 20 (lit ''Malformed URL'') \<noteq> lit ''Domain not allowed: ''"
  by (simp add: handleDownloadRequest_def validateDownloadRequest_def malformedRequest_def
      neverParses_def isString_def rejected_def lit_def)

section \<open>File name sanitization\<close>

lemma set_replaceDotDot: "set (replaceDotDot s) \<subseteq> insert underscore (set s)"
  by (induction s rule: replaceDotDot.induct) auto

lemma set_replaceLeadingDot: "set (replaceLeadingDot s) \<subseteq> insert underscore (set s)"
  by (auto simp: replaceLeadingDot_def split: list.splits if_splits)

lemma set_collapseSpaces: "set (collapseSpaces s) \<subseteq> insert underscore (set s)"
proof (induction s rule: collapseSpaces.induct)
  case 1
  show ?case by simp
next
  case (2 c cs)
  show ?case
  proof (cases "isSpace c")
    case True
    with 2 have "set (collapseSpaces (dropWhile isSpace cs)) \<subseteq> insert underscore (set (dropWhile isSpace cs))"
      by simp
    moreover have "set (dropWhile isSpace cs) \<subseteq> set cs"
      by (auto dest: set_dropWhileD)
    ultimately show ?thesis using True by auto
  next
    case False
    with 2 show ?thesis by auto
  qed
qed

lemma collapseSpaces_no_space: "c \<in> set (collapseSpaces s) \<Longrightarrow> \<not> isSpace c"
proof (induction s rule: collapseSpaces.induct)
  case 1
  then show ?case by simp
next
  case (2 d ds)
  have u: "\<not> isSpace underscore"
    by (simp add: isSpace_def underscore_def)
  show ?case
  proof (cases "isSpace d")
    case True
    with 2 u show ?thesis by auto
  next
    case False
    with 2 show ?thesis by auto
  qed
qed

lemma set_trim: "set (trim s) \<subseteq> set s"
  by (auto simp: trim_def dest!: set_dropWhileD)

lemma lastIndexOf_suffix:
  assumes "c \<notin> set suf"
  shows "substringFrom (pre @ c # suf) (lastIndexOf (pre @ c # suf) c) = c # suf"
proof -
  have "takeWhile (\<lambda>x. x \<noteq> c) (rev suf @ c # rev pre) =
      rev suf @ takeWhile (\<lambda>x. x \<noteq> c) (c # rev pre)"
    using assms by (intro takeWhile_append2) auto
  then have "takeWhile (\<lambda>x. x \<noteq> c) (rev (pre @ c # suf)) = rev suf"
    by simp
  then have "lastIndexOf (pre @ c # suf) c = int (length pre)"
    by (simp add: lastIndexOf_def)
  then show ?thesis
    by (simp add: substringFrom_def)
qed

lemma endsWith_append: "endsWith s suffix \<longleftrightarrow> (\<exists>pre. s = pre @ suffix)"
proof
  assume "endsWith s suffix"
  then have "s = take (length s - length suffix) s @ suffix"
    by (metis append_take_drop_id endsWith_def)
  then show "\<exists>pre. s = pre @ suffix" ..
next
  assume "\<exists>pre. s = pre @ suffix"
  then show "endsWith s suffix"
    by (auto simp: endsWith_def)
qed

lemma sanitized_tail:
  assumes "endsWith s (lit ''.vsix'') \<or> endsWith s (lit ''.vsixpackage'')"
  shows "substringFrom s (lastIndexOf s dot) = lit ''.vsix'' \<or>
         substringFrom s (lastIndexOf s dot) = lit ''.vsixpackage''"
proof -
  have v: "lit ''.vsix'' = dot # lit ''vsix''" "dot \<notin> set (lit ''vsix'')"
    "lit ''.vsixpackage'' = dot # lit ''vsixpackage''" "dot \<notin> set (lit ''vsixpackage'')"
    by (simp_all add: lit_def dot_def)
  from assms show ?thesis
  proof
    assume "endsWith s (lit ''.vsix'')"
    then obtain pre where "s = pre @ dot # lit ''vsix''"
      unfolding endsWith_append v(1) by blast
    then show ?thesis
      using lastIndexOf_suffix [OF v(2), of pre] by (simp add: v(1))
  next
    assume "endsWith s (lit ''.vsixpackage'')"
    then obtain pre where "s = pre @ dot # lit ''vsixpackage''"
      unfolding endsWith_append v(3) by blast
    then show ?thesis
      using lastIndexOf_suffix [OF v(4), of pre] by (simp add: v(3))
  qed
qed

lemma sanitizeFilename_steps:
  "sanitizeFilename (JString fname) =
     (if length (extended fname) > 200
      then substringTo (extended fname)
             (200 - int (length (substringFrom (extended fname) (lastIndexOf (extended fname) dot)))) @
           substringFrom (extended fname) (lastIndexOf (extended fname) dot)
      else extended fname)"
  by (simp add: Let_def extended_def cleaned_def)

lemma cleaned_chars:
  assumes "c \<in> set (cleaned fname)"
  shows "\<not> forbiddenChar c \<and> \<not> isSpace c"
proof -
  let ?m = "map (\<lambda>c. if forbiddenChar c then underscore else c) fname"
  have u: "\<not> forbiddenChar underscore"
    by (simp add: forbiddenChar_def underscore_def)
  have m: "\<forall>x \<in> set ?m. \<not> forbiddenChar x"
    using u by auto
  from assms have c: "c \<in> set (collapseSpaces (replaceLeadingDot (replaceDotDot ?m)))"
    using set_trim by (auto simp: cleaned_def)
  then have "c = underscore \<or> c \<in> set ?m"
    using set_collapseSpaces set_replaceLeadingDot set_replaceDotDot by blast
  with m u have "\<not> forbiddenChar c" by blast
  moreover have "\<not> isSpace c"
    using c by (rule collapseSpaces_no_space)
  ultimately show ?thesis by blast
qed

lemma extension_chars:
  "c \<in> set (lit ''.vsix'') \<or> c \<in> set (lit ''.vsixpackage'') \<Longrightarrow> \<not> forbiddenChar c \<and> \<not> isSpace c"
  by (auto simp: lit_def forbiddenChar_def isSpace_def)

lemma extended_chars:
  assumes "c \<in> set (extended fname)"
  shows "\<not> forbiddenChar c \<and> \<not> isSpace c"
  using assms cleaned_chars [of c fname] extension_chars [of c]
  by (auto simp: extended_def split: if_splits)

lemma extended_ends:
  "endsWith (extended fname) (lit ''.vsix'') \<or> endsWith (extended fname) (lit ''.vsixpackage'')"
  by (auto simp: extended_def endsWith_append)

text \<open>
  What holds of every sanitized name: none of \<open>< > : " | ? *\<close> and no white space
  is left, the length is at most 200, and the name ends in \<open>.vsix\<close> or
  \<open>.vsixpackage\<close>.
\<close>

lemma sanitizeFilename_properties:
  "(\<forall>c \<in> set (sanitizeFilename (JString fname)). \<not> forbiddenChar c \<and> \<not> isSpace c) \<and>
   length (sanitizeFilename (JString fname)) \<le> 200 \<and>
   (endsWith (sanitizeFilename (JString fname)) (lit ''.vsix'') \<or>
    endsWith (sanitizeFilename (JString fname)) (lit ''.vsixpackage''))"
proof (cases "length (extended fname) > 200")
  case False
  then have "sanitizeFilename (JString fname) = extended fname"
    by (simp only: sanitizeFilename_steps if_False)
  with False extended_chars [of _ fname] extended_ends [of fname] show ?thesis
    by auto
next
  case True
  let ?ext = "substringFrom (extended fname) (lastIndexOf (extended fname) dot)"
  have r: "sanitizeFilename (JString fname) =
      substringTo (extended fname) (200 - int (length ?ext)) @ ?ext"
    using True by (simp only: sanitizeFilename_steps if_True)
  have ext: "?ext = lit ''.vsix'' \<or> ?ext = lit ''.vsixpackage''"
    using extended_ends by (rule sanitized_tail)
  have chars: "\<forall>c \<in> set (substringTo (extended fname) (200 - int (length ?ext)) @ ?ext).
      \<not> forbiddenChar c \<and> \<not> isSpace c"
  proof
    fix c
    assume "c \<in> set (substringTo (extended fname) (200 - int (length ?ext)) @ ?ext)"
    then have "c \<in> set (extended fname) \<or> c \<in> set ?ext"
      by (auto simp: substringTo_def dest: in_set_takeD)
    then show "\<not> forbiddenChar c \<and> \<not> isSpace c"
      using extended_chars [of c fname] extension_chars [of c] ext by auto
  qed
  have len: "length (substringTo (extended fname) (200 - int (length ?ext)) @ ?ext) \<le> 200"
    using ext True by (auto simp: substringTo_def lit_def)
  have ends: "endsWith (substringTo (extended fname) (200 - int (length ?ext)) @ ?ext) (lit ''.vsix'') \<or>
      endsWith (substringTo (extended fname) (200 - int (length ?ext)) @ ?ext) (lit ''.vsixpackage'')"
    using ext by (auto simp: endsWith_append)
  show ?thesis
    unfolding r using chars len ends by blast
qed

lemma sanitizeFilename_example:
  "sanitizeFilename (JString (lit ''../../evil:name?.vsix'')) = lit ''_/_/evil_name_.vsix''"
  by (simp add: lit_def forbiddenChar_def underscore_def dot_def replaceLeadingDot_def isSpace_def
      trim_def endsWith_def lastIndexOf_def substringFrom_def substringTo_def Let_def)

text \<open>
  C7. The sanitized name can contain \<open>..\<close>: the extension is appended after the
  \<open>..\<close> sequences were replaced, so the name \<open>a.\<close> becomes \<open>a..vsix\<close>.
\<close>

theorem sanitizeFilename_trailing_dot:
  "sanitizeFilename (JString (lit ''a.'')) = lit ''a..vsix'' \<and>
   includesStr (lit ''a..vsix'') (lit ''..'')"
  by (simp add: lit_def forbiddenChar_def underscore_def dot_def replaceLeadingDot_def isSpace_def
      trim_def endsWith_def lastIndexOf_def substringFrom_def substringTo_def Let_def)

section \<open>The standalone enhanced script against the browser extension\<close>

text \<open>
  C8 as stated fails for the extractor of the enhanced script: on a page without a
  metadata table its \<open>extractMetadata\<close> throws.
\<close>

theorem enhanced_extract_throws_counterexample:
  "enhancedExtractMetadata noTablePage emptyManagerData =
     Inl (Error (lit ''Metadata table not found''))"
  by (simp add: enhancedExtractMetadata_def noTablePage_def)

text \<open>
  C1 as stated fails for the resolver of the enhanced script: \<open>getDownloadUrl\<close> puts the
  version \<open>1.0.0+1\<close> into the URL as it is, where its percent-encoding is \<open>1.0.0%2B1\<close>.
\<close>

theorem enhanced_url_unencoded_counterexample:
  "getDownloadUrl buildData (lit ''vsix'') =
     Inr (lit ''https://ms-python.gallery.vsassets.io/_apis/public/gallery/publisher/ms-python/extension/python/1.0.0+1/assetbyname/Microsoft.VisualStudio.Services.VSIXPackage'') \<and>
   encodeURIComponent (lit ''1.0.0+1'') = Inr (lit ''1.0.0%2B1'') \<and>
   lit ''https://ms-python.gallery.vsassets.io/_apis/public/gallery/publisher/ms-python/extension/python/1.0.0+1/assetbyname/Microsoft.VisualStudio.Services.VSIXPackage'' \<noteq>
   lit ''https://ms-python.gallery.vsassets.io/_apis/public/gallery/publisher/ms-python/extension/python/1.0.0%2B1/assetbyname/Microsoft.VisualStudio.Services.VSIXPackage''"
proof -
  have a: "getDownloadUrl buildData (lit ''vsix'') =
     Inr (lit ''https://ms-python.gallery.vsassets.io/_apis/public/gallery/publisher/ms-python/extension/python/1.0.0+1/assetbyname/Microsoft.VisualStudio.Services.VSIXPackage'')"
    by code_simp
  have b: "encodeURIComponent (lit ''1.0.0+1'') = Inr (lit ''1.0.0%2B1'')"
    by (simp add: lit_def uriUnreserved_def isLeadSurrogate_def isTrailSurrogate_def
        escapeCodePoint_def utf8_def percentEscape_def hexDigit_def)
  have c: "lit ''https://ms-python.gallery.vsassets.io/_apis/public/gallery/publisher/ms-python/extension/python/1.0.0+1/assetbyname/Microsoft.VisualStudio.Services.VSIXPackage'' \<noteq>
   lit ''https://ms-python.gallery.vsassets.io/_apis/public/gallery/publisher/ms-python/extension/python/1.0.0%2B1/assetbyname/Microsoft.VisualStudio.Services.VSIXPackage''"
    by (simp add: lit_def)
  from a b c show ?thesis by blast
qed

end
